theory Spec2Isabelle
  imports Complex_Main
begin

section \<open>Python values, exceptions and the outside world\<close>

text \<open>
  The module \<^verbatim>\<open>MsgRobot/Wechat.py\<close> posts JSON payloads to the WeChat Work HTTP API.
  Values that travel through untyped Python positions (configuration entries, parsed JSON
  responses, payload fields) are modelled by \<open>pyval\<close>. A Python \<^verbatim>\<open>dict\<close> with string keys
  that occurs inside a value is an association list read with \<open>map_of\<close>.

  A Python float is an IEEE double: \<open>Finite x\<close> is the double that denotes the real
  number \<open>x\<close> (the two zeros are not told apart), the other three values are the
  infinities and \<^verbatim>\<open>nan\<close>. Arithmetic on doubles rounds; the operations that round are
  not computed here but taken from the platform (see \<open>platform\<close> below).
\<close>

datatype pyfloat = Finite real | PosInf | NegInf | NaN

datatype pyval =
    PNone
  | PBool bool
  | PInt int
  | PFloat pyfloat
  | PStr string
  | PList "pyval list"
  | PDict "(string \<times> pyval) list"

text \<open>
  Every \<^verbatim>\<open>raise\<close> of the module and of the library calls it makes is a value of
  \<open>pyerr\<close>. \<open>RequestException\<close> stands for any transport failure raised by
  \<^verbatim>\<open>requests.post\<close>, \<open>JSONDecodeError\<close> for a response body that is not JSON.
\<close>

datatype pyerr =
    KeyError string
  | TypeError
  | ValueError string
  | AssertionError
  | OverflowError
  | RequestException
  | JSONDecodeError

text \<open>
  A POST request as the module issues it: the URL, the \<^verbatim>\<open>params=\<close> query parameters,
  the \<^verbatim>\<open>headers=\<close>, and the body. \<open>JsonBody v\<close> is the keyword \<^verbatim>\<open>json=v\<close>;
  \<open>DataBody v\<close> is \<^verbatim>\<open>data=bytes(json.dumps(v), "utf-8")\<close>: the body is represented by
  the value that is serialised, not by the serialised text.
\<close>

datatype body = NoBody | JsonBody pyval | DataBody pyval

record request =
  url :: string
  params :: "(string \<times> pyval) list"
  headers :: "(string \<times> string) list"
  payload :: body

text \<open>
  What a POST yields: an exception of the transport, a body that does not parse as JSON,
  or the parsed JSON value.
\<close>

datatype http_outcome = Transport_error | Not_json | Json pyval

text \<open>
  The platform the module runs on:
  \<^item> \<open>debug\<close> is the interpreter's \<^verbatim>\<open>__debug__\<close>: true by default, false under
    \<^verbatim>\<open>python -O\<close>, which compiles every \<^verbatim>\<open>assert\<close> statement away;
  \<^item> \<open>clock\<close> gives the successive readings of \<^verbatim>\<open>time.time()\<close>;
  \<^item> \<open>server\<close> is the provider (its answer may depend on all earlier requests);
  \<^item> \<open>float_of_str s\<close> is \<^verbatim>\<open>float(s)\<close> on a string, \<open>None\<close> when it raises
    \<^verbatim>\<open>ValueError\<close>;
  \<^item> \<open>float_of_int i\<close> is \<^verbatim>\<open>float(i)\<close> on an integer (rounded to the nearest double),
    \<open>None\<close> when it raises \<^verbatim>\<open>OverflowError\<close>;
  \<^item> \<open>float_sub a b\<close> is the double that \<^verbatim>\<open>a - b\<close> evaluates to (the exact
    difference, rounded);
  \<^item> \<open>str_of_float x\<close> is \<^verbatim>\<open>str(x)\<close> on a float.
  Nothing is assumed about these operations: every theorem holds for whatever they
  compute.
\<close>

record platform =
  debug :: bool
  clock :: "nat \<Rightarrow> pyfloat"
  server :: "request list \<Rightarrow> request \<Rightarrow> http_outcome"
  float_of_str :: "string \<Rightarrow> pyfloat option"
  float_of_int :: "int \<Rightarrow> pyfloat option"
  float_sub :: "pyfloat \<Rightarrow> pyfloat \<Rightarrow> pyfloat"
  str_of_float :: "pyfloat \<Rightarrow> string"

text \<open>
  The observable effects: how many times the clock was read, the POST requests issued so
  far (oldest first), and the entries written by \<^verbatim>\<open>logger.critical\<close> (the request and
  the response the message is formatted from).
\<close>

record world =
  ticks :: nat
  requests :: "request list"
  logs :: "(request \<times> pyval) list"

definition time_time :: "platform \<Rightarrow> world \<Rightarrow> pyfloat \<times> world" where
  "time_time P w = (clock P (ticks w), w\<lparr>ticks := Suc (ticks w)\<rparr>)"

definition requests_post :: "platform \<Rightarrow> request \<Rightarrow> world \<Rightarrow> http_outcome \<times> world" where
  "requests_post P r w = (server P (requests w) r, w\<lparr>requests := requests w @ [r]\<rparr>)"

subsection \<open>Python primitives used by the module\<close>

text \<open>\<^verbatim>\<open>d[k]\<close> on a dictionary with string keys.\<close>

definition dict_getitem :: "(string \<rightharpoonup> pyval) \<Rightarrow> string \<Rightarrow> pyerr + pyval" where
  "dict_getitem d k = (case d k of None \<Rightarrow> Inl (KeyError k) | Some v \<Rightarrow> Inr v)"

text \<open>\<^verbatim>\<open>v[k]\<close> with a string \<open>k\<close> on a parsed JSON value: only an object can be subscripted
  by a string.\<close>

fun getitem :: "pyval \<Rightarrow> string \<Rightarrow> pyerr + pyval" where
  "getitem (PDict kvs) k = dict_getitem (map_of kvs) k"
| "getitem _ k = Inl TypeError"

text \<open>Truth value of an object, as \<^verbatim>\<open>and\<close> and \<^verbatim>\<open>assert\<close> test it.\<close>

fun truthy :: "pyval \<Rightarrow> bool" where
  "truthy PNone = False"
| "truthy (PBool b) = b"
| "truthy (PInt i) = (i \<noteq> 0)"
| "truthy (PFloat x) = (x \<noteq> Finite 0)"
| "truthy (PStr s) = (s \<noteq> [])"
| "truthy (PList xs) = (xs \<noteq> [])"
| "truthy (PDict kvs) = (kvs \<noteq> [])"

text \<open>\<^verbatim>\<open>v != 0\<close>: numbers compare by value, anything else differs from \<open>0\<close>.\<close>

fun ne_zero :: "pyval \<Rightarrow> bool" where
  "ne_zero (PInt i) = (i \<noteq> 0)"
| "ne_zero (PBool b) = b"
| "ne_zero (PFloat x) = (x \<noteq> Finite 0)"
| "ne_zero _ = True"

text \<open>\<^verbatim>\<open>float(v)\<close>. A \<^verbatim>\<open>bool\<close> is an integer 0 or 1, which converts exactly.\<close>

fun py_float :: "platform \<Rightarrow> pyval \<Rightarrow> pyerr + pyfloat" where
  "py_float P (PStr s) =
     (case float_of_str P s of
        None \<Rightarrow> Inl (ValueError ''could not convert string to float'')
      | Some t \<Rightarrow> Inr t)"
| "py_float P (PFloat x) = Inr x"
| "py_float P (PInt i) =
     (case float_of_int P i of None \<Rightarrow> Inl OverflowError | Some t \<Rightarrow> Inr t)"
| "py_float P (PBool b) = Inr (Finite (if b then 1 else 0))"
| "py_float P _ = Inl TypeError"

text \<open>\<^verbatim>\<open>i < x\<close> and \<^verbatim>\<open>x < i\<close> for an integer \<open>i\<close> and a float \<open>x\<close>: Python compares
  the two by their exact values, and every comparison with \<^verbatim>\<open>nan\<close> is false.\<close>

fun int_lt_float :: "int \<Rightarrow> pyfloat \<Rightarrow> bool" where
  "int_lt_float i (Finite x) = (of_int i < x)"
| "int_lt_float i PosInf = True"
| "int_lt_float i NegInf = False"
| "int_lt_float i NaN = False"

fun float_lt_int :: "pyfloat \<Rightarrow> int \<Rightarrow> bool" where
  "float_lt_int (Finite x) i = (x < of_int i)"
| "float_lt_int PosInf i = False"
| "float_lt_int NegInf i = True"
| "float_lt_int NaN i = False"

text \<open>\<^verbatim>\<open>s + v\<close> for a string \<open>s\<close>: only a string can be appended.\<close>

fun str_add :: "string \<Rightarrow> pyval \<Rightarrow> pyerr + string" where
  "str_add s (PStr t) = Inr (s @ t)"
| "str_add s _ = Inl TypeError"

text \<open>\<^verbatim>\<open>sep.join(xs)\<close> on a list of strings.\<close>

fun join :: "string \<Rightarrow> string list \<Rightarrow> string" where
  "join sep [] = []"
| "join sep [x] = x"
| "join sep (x # y # ys) = x @ sep @ join sep (y # ys)"

section \<open>The function \<^verbatim>\<open>send\<close>\<close>

text \<open>
  \<^verbatim>\<open>res = requests.post(*args, **kwargs).json()\<close>, then a critical log entry when
  \<^verbatim>\<open>res["errcode"] != 0\<close>, then \<^verbatim>\<open>return res\<close>. The world is returned also when
  an exception leaves the function: the request has been made by then.
\<close>

definition send :: "platform \<Rightarrow> request \<Rightarrow> world \<Rightarrow> world \<times> (pyerr + pyval)" where
  "send P r w =
     (case requests_post P r w of
        (Transport_error, w1) \<Rightarrow> (w1, Inl RequestException)
      | (Not_json, w1) \<Rightarrow> (w1, Inl JSONDecodeError)
      | (Json res, w1) \<Rightarrow>
          (case getitem res ''errcode'' of
             Inl e \<Rightarrow> (w1, Inl e)
           | Inr c \<Rightarrow>
               if ne_zero c then (w1\<lparr>logs := logs w1 @ [(r, res)]\<rparr>, Inr res)
               else (w1, Inr res)))"

section \<open>The class \<^verbatim>\<open>WechatGroupRobot\<close>\<close>

record WechatGroupRobot =
  key :: string

definition WechatGroupRobot_init :: "string \<Rightarrow> WechatGroupRobot" where
  "WechatGroupRobot_init k = \<lparr>key = k\<rparr>"

definition webhook_url :: string where
  "webhook_url = ''https://qyapi.weixin.qq.com/cgi-bin/webhook/send?key=''"

text \<open>The two methods return the object as it is after the call, the world and the
  result of \<^verbatim>\<open>send\<close>.\<close>

definition WechatGroupRobot_send_msg ::
  "platform \<Rightarrow> WechatGroupRobot \<Rightarrow> string \<Rightarrow> string list \<Rightarrow> string list \<Rightarrow> world
     \<Rightarrow> WechatGroupRobot \<times> world \<times> (pyerr + pyval)" where
  "WechatGroupRobot_send_msg P self message mentioned_list mentioned_mobile_list w =
     (let hdrs = [(''Content-Type'', ''text/plain'')];
          send_url = webhook_url @ key self;
          send_data = PDict
            [(''msgtype'', PStr ''text''),
             (''text'', PDict
                [(''content'', PStr message),
                 (''mentioned_list'', PList (map PStr mentioned_list)),
                 (''mentioned_mobile_list'', PList (map PStr mentioned_mobile_list))])]
      in (self, send P \<lparr>url = send_url, params = [], headers = hdrs,
                         payload = JsonBody send_data\<rparr> w))"

definition WechatGroupRobot_send_md ::
  "platform \<Rightarrow> WechatGroupRobot \<Rightarrow> string \<Rightarrow> string list \<Rightarrow> string list \<Rightarrow> world
     \<Rightarrow> WechatGroupRobot \<times> world \<times> (pyerr + pyval)" where
  "WechatGroupRobot_send_md P self message mentioned_list mentioned_mobile_list w =
     (let hdrs = [(''Content-Type'', ''text/plain'')];
          send_url = webhook_url @ key self;
          send_data = PDict
            [(''msgtype'', PStr ''markdown''),
             (''markdown'', PDict
                [(''content'', PStr message),
                 (''mentioned_list'', PList (map PStr mentioned_list)),
                 (''mentioned_mobile_list'', PList (map PStr mentioned_mobile_list))])]
      in (self, send P \<lparr>url = send_url, params = [], headers = hdrs,
                         payload = JsonBody send_data\<rparr> w))"

section \<open>The class \<^verbatim>\<open>WechatRobot\<close>\<close>

record WechatRobot =
  config :: "string \<rightharpoonup> pyval"

text \<open>The message of the constructor's \<^verbatim>\<open>ValueError\<close> is a fixed text with the name
  of the field inserted by \<^verbatim>\<open>format\<close>; the Chinese text before and after the field name
  is given by its UTF-8 bytes.\<close>

definition msg_prefix :: string where
  "msg_prefix =
     ''config'' @
     [CHR 0xE9, CHR 0x85, CHR 0x8D, CHR 0xE7, CHR 0xBD, CHR 0xAE,
      CHR 0xE9, CHR 0x94, CHR 0x99, CHR 0xE8, CHR 0xAF, CHR 0xAF] @
     '','' @
     [CHR 0xE7, CHR 0xBC, CHR 0xBA, CHR 0xE5, CHR 0xB0, CHR 0x91]"

definition msg_suffix :: string where
  "msg_suffix = [CHR 0xE5, CHR 0xAD, CHR 0x97, CHR 0xE6, CHR 0xAE, CHR 0xB5]"

definition missing_msg :: "string \<Rightarrow> string" where
  "missing_msg k = msg_prefix @ k @ msg_suffix"

text \<open>The loop \<^verbatim>\<open>for key in [...]: if key not in self._config.keys(): raise ...\<close>.\<close>

fun check_keys :: "(string \<rightharpoonup> pyval) \<Rightarrow> string list \<Rightarrow> pyerr + unit" where
  "check_keys cfg [] = Inr ()"
| "check_keys cfg (k # ks) =
     (if cfg k = None then Inl (ValueError (missing_msg k)) else check_keys cfg ks)"

definition required_keys :: "string list" where
  "required_keys = [''corp_id'', ''secret_id'', ''agent_id'']"

definition WechatRobot_init :: "(string \<rightharpoonup> pyval) \<Rightarrow> pyerr + WechatRobot" where
  "WechatRobot_init app_config =
     (case check_keys app_config required_keys of
        Inl e \<Rightarrow> Inl e
      | Inr _ \<Rightarrow> Inr \<lparr>config = app_config\<rparr>)"

text \<open>
  The \<^verbatim>\<open>assert\<close> statement of \<^verbatim>\<open>_get_access_token\<close> when it is executed, evaluated
  left to right with the clock reading \<open>now\<close>:
  \<^verbatim>\<open>0 < time.time() - float(self._config["token_time"]) < 7260 and self._config["token"]\<close>.
  The difference is computed once, in double arithmetic, and compared with the two
  integers; the token is looked up only when the chained comparison holds.
\<close>

definition token_assert :: "platform \<Rightarrow> (string \<rightharpoonup> pyval) \<Rightarrow> pyfloat \<Rightarrow> pyerr + unit" where
  "token_assert P cfg now =
     (case dict_getitem cfg ''token_time'' of
        Inl e \<Rightarrow> Inl e
      | Inr tv \<Rightarrow>
          (case py_float P tv of
             Inl e \<Rightarrow> Inl e
           | Inr t \<Rightarrow>
               if int_lt_float 0 (float_sub P now t) \<and> float_lt_int (float_sub P now t) 7260 then
                 (case dict_getitem cfg ''token'' of
                    Inl e \<Rightarrow> Inl e
                  | Inr tok \<Rightarrow> if truthy tok then Inr () else Inl AssertionError)
               else Inl AssertionError))"

definition gettoken_url :: string where
  "gettoken_url = ''https://qyapi.weixin.qq.com/cgi-bin/gettoken''"

definition gettoken_request :: "pyval \<Rightarrow> pyval \<Rightarrow> request" where
  "gettoken_request cid sec =
     \<lparr>url = gettoken_url, params = [(''corpid'', cid), (''corpsecret'', sec)],
      headers = [], payload = NoBody\<rparr>"

text \<open>The body of the \<^verbatim>\<open>except Exception\<close> handler: the refresh.\<close>

definition refresh_token ::
  "platform \<Rightarrow> WechatRobot \<Rightarrow> world \<Rightarrow> WechatRobot \<times> world \<times> (pyerr + unit)" where
  "refresh_token P self w =
     (case dict_getitem (config self) ''corp_id'' of
        Inl e \<Rightarrow> (self, w, Inl e)
      | Inr cid \<Rightarrow>
          (case dict_getitem (config self) ''secret_id'' of
             Inl e \<Rightarrow> (self, w, Inl e)
           | Inr sec \<Rightarrow>
               (case requests_post P (gettoken_request cid sec) w of
                  (Transport_error, w1) \<Rightarrow> (self, w1, Inl RequestException)
                | (Not_json, w1) \<Rightarrow> (self, w1, Inl JSONDecodeError)
                | (Json data, w1) \<Rightarrow>
                    (case getitem data ''access_token'' of
                       Inl e \<Rightarrow> (self, w1, Inl e)
                     | Inr tok \<Rightarrow>
                         (let self1 = self\<lparr>config := (config self)(''token'' \<mapsto> tok)\<rparr>
                          in case time_time P w1 of
                               (now, w2) \<Rightarrow>
                                 (self1\<lparr>config := (config self1)
                                     (''token_time'' \<mapsto> PStr (str_of_float P now))\<rparr>,
                                  w2, Inr ()))))))"

text \<open>
  \<^verbatim>\<open>_get_access_token\<close>. With \<open>debug\<close> the \<^verbatim>\<open>try\<close> block runs the assertion, and
  any exception it raises (the failed assertion, a missing key, a value that
  \<^verbatim>\<open>float\<close> rejects) enters the handler. Without \<open>debug\<close> the \<^verbatim>\<open>assert\<close> statement
  is not compiled: the \<^verbatim>\<open>try\<close> block is empty, the clock is not read, the handler is
  never entered, and the function goes straight to \<^verbatim>\<open>return self._config["token"]\<close>.
\<close>

definition WechatRobot_get_access_token ::
  "platform \<Rightarrow> WechatRobot \<Rightarrow> world \<Rightarrow> WechatRobot \<times> world \<times> (pyerr + pyval)" where
  "WechatRobot_get_access_token P self w =
     (if debug P then
        (case time_time P w of
           (now, w1) \<Rightarrow>
             (case token_assert P (config self) now of
                Inr _ \<Rightarrow> (self, w1, dict_getitem (config self) ''token'')
              | Inl _ \<Rightarrow>
                  (case refresh_token P self w1 of
                     (self1, w2, Inl e) \<Rightarrow> (self1, w2, Inl e)
                   | (self1, w2, Inr _) \<Rightarrow>
                       (self1, w2, dict_getitem (config self1) ''token''))))
      else (self, w, dict_getitem (config self) ''token''))"

text \<open>
  The receiver of \<^verbatim>\<open>send_msg\<close> is annotated \<^verbatim>\<open>Iterable[str]\<close>: either a string, or an
  iterable that is not a string, given by the list of its elements.
\<close>

datatype receiver = RStr string | RIter "string list"

fun normalize_receiver :: "receiver \<Rightarrow> string" where
  "normalize_receiver (RIter xs) = join ''|'' xs"
| "normalize_receiver (RStr s) = s"

definition message_send_url :: string where
  "message_send_url = ''https://qyapi.weixin.qq.com/cgi-bin/message/send?access_token=''"

definition send_values :: "string \<Rightarrow> pyval \<Rightarrow> string \<Rightarrow> pyval" where
  "send_values touser agentid message =
     PDict [(''touser'', PStr touser),
            (''msgtype'', PStr ''text''),
            (''agentid'', agentid),
            (''text'', PDict [(''content'', PStr message)]),
            (''safe'', PStr ''0'')]"

definition WechatRobot_send_msg ::
  "platform \<Rightarrow> WechatRobot \<Rightarrow> string \<Rightarrow> receiver \<Rightarrow> world
     \<Rightarrow> WechatRobot \<times> world \<times> (pyerr + pyval)" where
  "WechatRobot_send_msg P self message rcv w =
     (let touser = normalize_receiver rcv
      in case WechatRobot_get_access_token P self w of
           (self1, w1, Inl e) \<Rightarrow> (self1, w1, Inl e)
         | (self1, w1, Inr tok) \<Rightarrow>
             (case str_add message_send_url tok of
                Inl e \<Rightarrow> (self1, w1, Inl e)
              | Inr send_url \<Rightarrow>
                  (case dict_getitem (config self1) ''agent_id'' of
                     Inl e \<Rightarrow> (self1, w1, Inl e)
                   | Inr aid \<Rightarrow>
                       (self1, send P \<lparr>url = send_url, params = [], headers = [],
                                        payload = DataBody (send_values touser aid message)\<rparr>
                                     w1))))"
section \<open>The validity window as the specification words it\<close>

text \<open>
  The specification's wording of a VALID token, to be compared with \<open>token_assert\<close>:
  the elapsed time since acquisition (the clock reading minus the stored
  \<^verbatim>\<open>token_time\<close>, both floats, so the difference is the double the subtraction
  yields) is strictly greater than 0 and strictly less than 7260, and the cached token
  is non-empty. A missing or unreadable \<^verbatim>\<open>token_time\<close> has no elapsed time, a missing
  token is not non-empty; for a value that is not a string, non-empty is Python's truth
  value.
\<close>

definition elapsed :: "platform \<Rightarrow> (string \<rightharpoonup> pyval) \<Rightarrow> pyfloat \<Rightarrow> pyfloat option" where
  "elapsed P cfg now =
     (case cfg ''token_time'' of
        None \<Rightarrow> None
      | Some tv \<Rightarrow>
          (case py_float P tv of Inl _ \<Rightarrow> None | Inr t \<Rightarrow> Some (float_sub P now t)))"

definition spec_token_valid :: "platform \<Rightarrow> (string \<rightharpoonup> pyval) \<Rightarrow> pyfloat \<Rightarrow> bool" where
  "spec_token_valid P cfg now =
     ((case elapsed P cfg now of
         None \<Rightarrow> False
       | Some e \<Rightarrow> int_lt_float 0 e \<and> float_lt_int e 7260)
      \<and> (case cfg ''token'' of None \<Rightarrow> False | Some tok \<Rightarrow> truthy tok))"

section \<open>Concrete inputs\<close>

text \<open>
  A provider that issues the token \<^verbatim>\<open>T1\<close>, rejects the webhook key \<^verbatim>\<open>bad\<close> with a
  non-zero \<^verbatim>\<open>errcode\<close>, answers the key \<^verbatim>\<open>odd\<close> with an object without any
  \<^verbatim>\<open>errcode\<close> and the key \<^verbatim>\<open>list\<close> with the JSON array \<^verbatim>\<open>[]\<close>, and accepts
  everything else; a clock that starts at 1000 seconds and advances by one second per
  reading; an interpreter with assertions enabled. The subtraction of \<open>demo_platform\<close>
  is exact on finite values: at the values used with it the difference is itself a
  double.
\<close>

definition demo_server :: "request list \<Rightarrow> request \<Rightarrow> http_outcome" where
  "demo_server h r =
     (if url r = gettoken_url then
        Json (PDict [(''errcode'', PInt 0), (''access_token'', PStr ''T1'')])
      else if url r = webhook_url @ ''bad'' then
        Json (PDict [(''errcode'', PInt 93000), (''errmsg'', PStr ''invalid webhook url'')])
      else if url r = webhook_url @ ''odd'' then
        Json (PDict [(''errmsg'', PStr ''ok'')])
      else if url r = webhook_url @ ''list'' then
        Json (PList [])
      else Json (PDict [(''errcode'', PInt 0), (''errmsg'', PStr ''ok'')]))"

fun exact_sub :: "pyfloat \<Rightarrow> pyfloat \<Rightarrow> pyfloat" where
  "exact_sub (Finite a) (Finite b) = Finite (a - b)"
| "exact_sub _ _ = NaN"

definition demo_platform :: platform where
  "demo_platform =
     \<lparr>debug = True,
      clock = (\<lambda>n. Finite (1000 + of_nat n)),
      server = demo_server,
      float_of_str = (\<lambda>s. if s = ''500.0'' then Some (Finite 500) else None),
      float_of_int = (\<lambda>i. Some (Finite (of_int i))),
      float_sub = exact_sub,
      str_of_float = (\<lambda>x. ''1001.0'')\<rparr>"

definition offline_platform :: platform where
  "offline_platform = demo_platform\<lparr>server := (\<lambda>h r. Transport_error)\<rparr>"

text \<open>The same platform run with \<^verbatim>\<open>python -O\<close>.\<close>

definition optimized_platform :: platform where
  "optimized_platform = demo_platform\<lparr>debug := False\<rparr>"

text \<open>
  A platform whose subtraction rounds: a subtrahend of magnitude at most \<^verbatim>\<open>2**-54\<close> times
  that of the minuend is below half a unit in the last place of the minuend, and
  round-to-nearest gives the minuend back. The clock reads 7260.0 and the string
  \<^verbatim>\<open>8.271806125530277e-25\<close> denotes the double \<^verbatim>\<open>2**-80\<close>, so that
  \<^verbatim>\<open>7260.0 - 8.271806125530277e-25\<close> is \<^verbatim>\<open>7260.0\<close>.
\<close>

fun absorbing_sub :: "pyfloat \<Rightarrow> pyfloat \<Rightarrow> pyfloat" where
  "absorbing_sub (Finite a) (Finite b) =
     Finite (if \<bar>b\<bar> * 2 ^ 54 \<le> \<bar>a\<bar> then a else a - b)"
| "absorbing_sub _ _ = NaN"

definition rounding_platform :: platform where
  "rounding_platform =
     demo_platform
       \<lparr>clock := (\<lambda>n. Finite 7260),
        float_of_str :=
          (\<lambda>s. if s = ''8.271806125530277e-25'' then Some (Finite (1 / 2 ^ 80)) else None),
        float_sub := absorbing_sub\<rparr>"

definition early_robot :: WechatRobot where
  "early_robot =
     \<lparr>config = [''corp_id'' \<mapsto> PStr ''corp'', ''secret_id'' \<mapsto> PStr ''secret'',
                 ''agent_id'' \<mapsto> PInt 7, ''token'' \<mapsto> PStr ''T0'',
                 ''token_time'' \<mapsto> PStr ''8.271806125530277e-25'']\<rparr>"

definition demo_world :: world where
  "demo_world = \<lparr>ticks = 0, requests = [], logs = []\<rparr>"

definition demo_config :: "string \<rightharpoonup> pyval" where
  "demo_config =
     [''corp_id'' \<mapsto> PStr ''corp'', ''secret_id'' \<mapsto> PStr ''secret'',
      ''agent_id'' \<mapsto> PInt 7]"

definition fresh_robot :: WechatRobot where
  "fresh_robot = \<lparr>config = demo_config\<rparr>"

definition cached_robot :: WechatRobot where
  "cached_robot =
     \<lparr>config = demo_config(''token'' \<mapsto> PStr ''T0'', ''token_time'' \<mapsto> PStr ''500.0'')\<rparr>"

definition webhook_request :: "string \<Rightarrow> request" where
  "webhook_request k =
     \<lparr>url = webhook_url @ k, params = [], headers = [], payload = NoBody\<rparr>"

section \<open>Auxiliary facts\<close>

subsection \<open>\<^verbatim>\<open>send\<close>\<close>

lemma send_requests: "requests (fst (send P r w)) = requests w @ [r]"
  by (simp add: send_def requests_post_def split: http_outcome.splits sum.splits)

lemma send_not_object:
  assumes "server P (requests w) r = Json res" and "\<forall>kvs. res \<noteq> PDict kvs"
  shows "snd (send P r w) = Inl TypeError"
  using assms by (cases res) (simp_all add: send_def requests_post_def)

subsection \<open>The token check and the refresh\<close>

lemma spec_token_valid_iff:
  "spec_token_valid P cfg now \<longleftrightarrow>
     (\<exists>tv t tok. cfg ''token_time'' = Some tv \<and> py_float P tv = Inr t
        \<and> int_lt_float 0 (float_sub P now t) \<and> float_lt_int (float_sub P now t) 7260
        \<and> cfg ''token'' = Some tok \<and> truthy tok)"
  by (auto simp: spec_token_valid_def elapsed_def split: option.splits sum.splits)

lemma token_assert_valid:
  "token_assert P cfg now = Inr () \<longleftrightarrow> spec_token_valid P cfg now"
  by (auto simp: token_assert_def spec_token_valid_def elapsed_def dict_getitem_def
           split: option.splits sum.splits)

lemma token_assert_invalid:
  "\<not> spec_token_valid P cfg now \<Longrightarrow> \<exists>e. token_assert P cfg now = Inl e"
  using token_assert_valid [of P cfg now] by (cases "token_assert P cfg now") auto

lemma get_access_token_optimized:
  "\<not> debug P \<Longrightarrow>
     WechatRobot_get_access_token P self w = (self, w, dict_getitem (config self) ''token'')"
  by (simp add: WechatRobot_get_access_token_def)

lemma get_access_token_valid:
  assumes "debug P" and "spec_token_valid P (config self) (clock P (ticks w))"
  shows "\<exists>tok. config self ''token'' = Some tok \<and>
     WechatRobot_get_access_token P self w = (self, w\<lparr>ticks := Suc (ticks w)\<rparr>, Inr tok)"
proof -
  from assms(2) have a: "token_assert P (config self) (clock P (ticks w)) = Inr ()"
    by (simp add: token_assert_valid)
  from assms(2) obtain tok where t: "config self ''token'' = Some tok"
    by (auto simp: spec_token_valid_iff)
  show ?thesis
    using a t assms(1)
    by (simp add: WechatRobot_get_access_token_def time_time_def dict_getitem_def)
qed

lemma get_access_token_invalid:
  assumes "debug P" and "\<not> spec_token_valid P (config self) (clock P (ticks w))"
  shows "WechatRobot_get_access_token P self w =
     (case refresh_token P self (w\<lparr>ticks := Suc (ticks w)\<rparr>) of
        (self1, w2, Inl e) \<Rightarrow> (self1, w2, Inl e)
      | (self1, w2, Inr _) \<Rightarrow> (self1, w2, dict_getitem (config self1) ''token''))"
proof -
  from token_assert_invalid [OF assms(2)] obtain e
    where "token_assert P (config self) (clock P (ticks w)) = Inl e" ..
  then show ?thesis
    using assms(1) by (simp add: WechatRobot_get_access_token_def time_time_def)
qed

lemma refresh_token_ok:
  assumes "config self ''corp_id'' = Some cid" and "config self ''secret_id'' = Some sec"
    and "server P (requests w) (gettoken_request cid sec) = Json data"
    and "getitem data ''access_token'' = Inr tok"
  shows "refresh_token P self w =
     (self\<lparr>config := (config self)(''token'' \<mapsto> tok,
          ''token_time'' \<mapsto> PStr (str_of_float P (clock P (ticks w))))\<rparr>,
      w\<lparr>ticks := Suc (ticks w), requests := requests w @ [gettoken_request cid sec]\<rparr>,
      Inr ())"
  using assms
  by (simp add: refresh_token_def dict_getitem_def requests_post_def time_time_def)

lemma refresh_token_requests:
  assumes "config self ''corp_id'' = Some cid" and "config self ''secret_id'' = Some sec"
  shows "requests (fst (snd (refresh_token P self w))) = requests w @ [gettoken_request cid sec]"
  using assms
  by (simp add: refresh_token_def dict_getitem_def requests_post_def time_time_def
           split: http_outcome.splits sum.splits)

lemma refresh_token_frame:
  "k \<noteq> ''token'' \<Longrightarrow> k \<noteq> ''token_time'' \<Longrightarrow>
     config (fst (refresh_token P self w)) k = config self k"
  by (simp add: refresh_token_def dict_getitem_def requests_post_def time_time_def
           split: http_outcome.splits sum.splits option.splits)

lemma refresh_token_error:
  "snd (snd (refresh_token P self w)) = Inl e \<Longrightarrow> fst (refresh_token P self w) = self"
  by (simp add: refresh_token_def dict_getitem_def requests_post_def time_time_def
           split: http_outcome.splits sum.splits option.splits)

lemma refresh_token_token:
  "snd (snd (refresh_token P self w)) = Inr u \<Longrightarrow>
     \<exists>tok. config (fst (refresh_token P self w)) ''token'' = Some tok"
  by (auto simp add: refresh_token_def dict_getitem_def requests_post_def time_time_def
           split: http_outcome.splits sum.splits option.splits)

lemma gettoken_request_fields:
  "gettoken_request cid sec =
     \<lparr>url = ''https://qyapi.weixin.qq.com/cgi-bin/gettoken'',
      params = [(''corpid'', cid), (''corpsecret'', sec)],
      headers = [], payload = NoBody\<rparr>"
  by (simp add: gettoken_request_def gettoken_url_def)

lemma get_access_token_requests:
  assumes "debug P"
    and "config self ''corp_id'' = Some cid" and "config self ''secret_id'' = Some sec"
  shows "requests (fst (snd (WechatRobot_get_access_token P self w))) =
           (if spec_token_valid P (config self) (clock P (ticks w)) then requests w
            else requests w @ [gettoken_request cid sec])"
proof (cases "spec_token_valid P (config self) (clock P (ticks w))")
  case True
  from get_access_token_valid [OF assms(1) True] show ?thesis using True by auto
next
  case False
  let ?w = "w\<lparr>ticks := Suc (ticks w)\<rparr>"
  obtain s1 w2 r where rt: "refresh_token P self ?w = (s1, w2, r)"
    by (cases "refresh_token P self ?w") auto
  from refresh_token_requests [OF assms(2,3), of P ?w] rt
  have "requests w2 = requests w @ [gettoken_request cid sec]" by simp
  with rt have "requests (fst (snd (WechatRobot_get_access_token P self w))) =
      requests w @ [gettoken_request cid sec]"
    by (cases r) (simp_all add: get_access_token_invalid [OF assms(1) False])
  with False show ?thesis by simp
qed

lemma get_access_token_frame:
  assumes "k \<noteq> ''token''" and "k \<noteq> ''token_time''"
  shows "config (fst (WechatRobot_get_access_token P self w)) k = config self k"
proof (cases "debug P")
  case False
  then show ?thesis by (simp add: get_access_token_optimized)
next
  case d: True
  show ?thesis
  proof (cases "spec_token_valid P (config self) (clock P (ticks w))")
    case True
    from get_access_token_valid [OF d True] show ?thesis by auto
  next
    case False
    let ?w = "w\<lparr>ticks := Suc (ticks w)\<rparr>"
    obtain s1 w2 r where rt: "refresh_token P self ?w = (s1, w2, r)"
      by (cases "refresh_token P self ?w") auto
    with refresh_token_frame [OF assms, of P self ?w] show ?thesis
      by (cases r) (simp_all add: get_access_token_invalid [OF d False])
  qed
qed

lemma get_access_token_error:
  assumes "snd (snd (WechatRobot_get_access_token P self w)) = Inl e"
  shows "fst (WechatRobot_get_access_token P self w) = self"
proof (cases "debug P")
  case False
  then show ?thesis by (simp add: get_access_token_optimized)
next
  case d: True
  show ?thesis
  proof (cases "spec_token_valid P (config self) (clock P (ticks w))")
    case True
    from get_access_token_valid [OF d True] show ?thesis by auto
  next
    case False
    let ?w = "w\<lparr>ticks := Suc (ticks w)\<rparr>"
    obtain s1 w2 r where rt: "refresh_token P self ?w = (s1, w2, r)"
      by (cases "refresh_token P self ?w") auto
    show ?thesis
    proof (cases r)
      case (Inl e')
      with rt refresh_token_error [of P self ?w e'] show ?thesis
        by (simp add: get_access_token_invalid [OF d False])
    next
      case (Inr u)
      with rt refresh_token_token [of P self ?w u] assms show ?thesis
        by (auto simp add: get_access_token_invalid [OF d False] dict_getitem_def)
    qed
  qed
qed

subsection \<open>\<^verbatim>\<open>send_msg\<close> of \<^verbatim>\<open>WechatRobot\<close>\<close>

lemma send_url_not_gettoken: "message_send_url @ t \<noteq> gettoken_url"
  by (simp add: message_send_url_def gettoken_url_def)

lemma send_msg_config:
  "config (fst (WechatRobot_send_msg P self m rcv w)) =
     config (fst (WechatRobot_get_access_token P self w))"
  by (cases "WechatRobot_get_access_token P self w")
     (simp add: WechatRobot_send_msg_def split: sum.splits)

lemma send_msg_token_posts:
  "filter (\<lambda>r. url r = gettoken_url)
       (requests (fst (snd (WechatRobot_send_msg P self m rcv w)))) =
   filter (\<lambda>r. url r = gettoken_url)
       (requests (fst (snd (WechatRobot_get_access_token P self w))))"
proof -
  obtain s1 w1 res where g: "WechatRobot_get_access_token P self w = (s1, w1, res)"
    by (cases "WechatRobot_get_access_token P self w") auto
  show ?thesis
  proof (cases res)
    case (Inl e)
    with g show ?thesis by (simp add: WechatRobot_send_msg_def)
  next
    case (Inr tok)
    with g send_url_not_gettoken show ?thesis
      by (cases tok)
         (simp_all add: WechatRobot_send_msg_def send_requests dict_getitem_def
            split: option.splits)
  qed
qed

lemma join_concat: "join sep (x # xs) = x @ concat (map (\<lambda>y. sep @ y) xs)"
  by (induction xs arbitrary: x) simp_all

lemma normalize_receiver_eq:
  "normalize_receiver rcv =
     (case rcv of
        RStr s \<Rightarrow> s
      | RIter [] \<Rightarrow> []
      | RIter (x # xs) \<Rightarrow> x @ concat (map (\<lambda>y. ''|'' @ y) xs))"
proof -
  have e: "(@) ''|'' = (#) CHR ''|''" by (rule ext) simp
  show ?thesis by (simp add: join_concat e split: receiver.splits list.splits)
qed

subsection \<open>Evaluation of the concrete inputs\<close>

lemma demo_fields [simp]:
  "debug demo_platform"
  "clock demo_platform n = Finite (1000 + of_nat n)"
  "server demo_platform = demo_server"
  "float_of_str demo_platform s = (if s = ''500.0'' then Some (Finite 500) else None)"
  "float_sub demo_platform = exact_sub"
  "str_of_float demo_platform x = ''1001.0''"
  "ticks demo_world = 0" "requests demo_world = []" "logs demo_world = []"
  by (simp_all add: demo_platform_def demo_world_def)

lemma offline_fields [simp]:
  "debug offline_platform"
  "clock offline_platform n = Finite (1000 + of_nat n)"
  "server offline_platform h r = Transport_error"
  by (simp_all add: offline_platform_def demo_platform_def)

lemma optimized_fields [simp]:
  "\<not> debug optimized_platform"
  "server optimized_platform = demo_server"
  by (simp_all add: optimized_platform_def demo_platform_def)

lemma rounding_fields [simp]:
  "debug rounding_platform"
  "clock rounding_platform n = Finite 7260"
  "server rounding_platform = demo_server"
  "float_of_str rounding_platform s =
     (if s = ''8.271806125530277e-25'' then Some (Finite (1 / 2 ^ 80)) else None)"
  "float_sub rounding_platform = absorbing_sub"
  by (simp_all add: rounding_platform_def demo_platform_def)

lemma early_robot_config [simp]:
  "config early_robot ''corp_id'' = Some (PStr ''corp'')"
  "config early_robot ''secret_id'' = Some (PStr ''secret'')"
  "config early_robot ''token'' = Some (PStr ''T0'')"
  "config early_robot ''token_time'' = Some (PStr ''8.271806125530277e-25'')"
  by (simp_all add: early_robot_def)

lemma fresh_robot_config [simp]:
  "config fresh_robot ''corp_id'' = Some (PStr ''corp'')"
  "config fresh_robot ''secret_id'' = Some (PStr ''secret'')"
  "config fresh_robot ''agent_id'' = Some (PInt 7)"
  "config fresh_robot ''token'' = None"
  "config fresh_robot ''token_time'' = None"
  by (simp_all add: fresh_robot_def demo_config_def)

lemma cached_robot_config [simp]:
  "config cached_robot ''corp_id'' = Some (PStr ''corp'')"
  "config cached_robot ''secret_id'' = Some (PStr ''secret'')"
  "config cached_robot ''agent_id'' = Some (PInt 7)"
  "config cached_robot ''token'' = Some (PStr ''T0'')"
  "config cached_robot ''token_time'' = Some (PStr ''500.0'')"
  by (simp_all add: cached_robot_def demo_config_def)

lemma fresh_robot_invalid: "\<not> spec_token_valid P (config fresh_robot) now"
  by (simp add: spec_token_valid_def)

lemma cached_robot_valid:
  "spec_token_valid demo_platform (config cached_robot) (clock demo_platform (ticks demo_world))"
  by (simp add: spec_token_valid_def elapsed_def)

lemma early_robot_elapsed:
  "elapsed rounding_platform (config early_robot)
     (clock rounding_platform (ticks demo_world)) = Some (Finite 7260)"
  by (simp add: elapsed_def)

lemma early_robot_invalid:
  "\<not> spec_token_valid rounding_platform (config early_robot)
       (clock rounding_platform (ticks demo_world))"
  using early_robot_elapsed by (simp add: spec_token_valid_def)

lemma demo_server_gettoken:
  "demo_server h (gettoken_request cid sec) =
     Json (PDict [(''errcode'', PInt 0), (''access_token'', PStr ''T1'')])"
  by (simp add: demo_server_def gettoken_request_def)

lemma demo_server_bad:
  "demo_server h (webhook_request ''bad'') =
     Json (PDict [(''errcode'', PInt 93000), (''errmsg'', PStr ''invalid webhook url'')])"
  by (simp add: demo_server_def webhook_request_def webhook_url_def gettoken_url_def)

lemma demo_server_odd:
  "demo_server h (webhook_request ''odd'') = Json (PDict [(''errmsg'', PStr ''ok'')])"
  by (simp add: demo_server_def webhook_request_def webhook_url_def gettoken_url_def)

lemma demo_server_list:
  "demo_server h (webhook_request ''list'') = Json (PList [])"
  by (simp add: demo_server_def webhook_request_def webhook_url_def gettoken_url_def)

lemma fresh_robot_refresh:
  "WechatRobot_get_access_token demo_platform fresh_robot demo_world =
     (fresh_robot\<lparr>config := (config fresh_robot)
          (''token'' \<mapsto> PStr ''T1'', ''token_time'' \<mapsto> PStr ''1001.0'')\<rparr>,
      demo_world\<lparr>ticks := 2,
          requests := [gettoken_request (PStr ''corp'') (PStr ''secret'')]\<rparr>,
      Inr (PStr ''T1''))"
proof -
  let ?w = "demo_world\<lparr>ticks := Suc (ticks demo_world)\<rparr>"
  have "getitem (PDict [(''errcode'', PInt 0), (''access_token'', PStr ''T1'')])
          ''access_token'' = Inr (PStr ''T1'')"
    by (simp add: dict_getitem_def)
  with refresh_token_ok [of fresh_robot "PStr ''corp''" "PStr ''secret''" demo_platform ?w]
  have "refresh_token demo_platform fresh_robot ?w =
     (fresh_robot\<lparr>config := (config fresh_robot)
          (''token'' \<mapsto> PStr ''T1'', ''token_time'' \<mapsto> PStr ''1001.0'')\<rparr>,
      demo_world\<lparr>ticks := 2,
          requests := [gettoken_request (PStr ''corp'') (PStr ''secret'')]\<rparr>,
      Inr ())"
    by (simp add: demo_server_gettoken numeral_2_eq_2)
  then show ?thesis
    by (simp add: get_access_token_invalid [OF _ fresh_robot_invalid] dict_getitem_def)
qed

section \<open>The token cache of \<^verbatim>\<open>WechatRobot\<close>\<close>

text \<open>
  Claim C1. With assertions enabled and a configuration that holds \<^verbatim>\<open>corp_id\<close> and
  \<^verbatim>\<open>secret_id\<close> (the constructor checks both), the assertion of
  \<^verbatim>\<open>_get_access_token\<close> passes exactly when the token is VALID: the stored
  \<^verbatim>\<open>token_time\<close> converts to a float, the elapsed time (the clock reading minus that
  float, as the subtraction of doubles yields it) is strictly greater than 0 and strictly
  less than 7260, and the cached token is present and non-empty. The call issues no POST
  exactly in that case; in every other state it issues the POST to the token endpoint
  with the configured corp id and secret.
\<close>

theorem get_access_token_skips_iff_valid:
  assumes "debug P"
    and "config self ''corp_id'' = Some cid" and "config self ''secret_id'' = Some sec"
  shows "(spec_token_valid P (config self) (clock P (ticks w)) \<longleftrightarrow>
            (\<exists>tv t tok. config self ''token_time'' = Some tv \<and> py_float P tv = Inr t
               \<and> int_lt_float 0 (float_sub P (clock P (ticks w)) t)
               \<and> float_lt_int (float_sub P (clock P (ticks w)) t) 7260
               \<and> config self ''token'' = Some tok \<and> truthy tok))
       \<and> (token_assert P (config self) (clock P (ticks w)) = Inr ()
            \<longleftrightarrow> spec_token_valid P (config self) (clock P (ticks w)))
       \<and> (requests (fst (snd (WechatRobot_get_access_token P self w))) = requests w
            \<longleftrightarrow> spec_token_valid P (config self) (clock P (ticks w)))
       \<and> requests (fst (snd (WechatRobot_get_access_token P self w))) =
           (if spec_token_valid P (config self) (clock P (ticks w)) then requests w
            else requests w @
              [\<lparr>url = ''https://qyapi.weixin.qq.com/cgi-bin/gettoken'',
                params = [(''corpid'', cid), (''corpsecret'', sec)],
                headers = [], payload = NoBody\<rparr>])"
proof (intro conjI)
  show "spec_token_valid P (config self) (clock P (ticks w)) \<longleftrightarrow>
            (\<exists>tv t tok. config self ''token_time'' = Some tv \<and> py_float P tv = Inr t
               \<and> int_lt_float 0 (float_sub P (clock P (ticks w)) t)
               \<and> float_lt_int (float_sub P (clock P (ticks w)) t) 7260
               \<and> config self ''token'' = Some tok \<and> truthy tok)"
    by (rule spec_token_valid_iff)
next
  show "token_assert P (config self) (clock P (ticks w)) = Inr ()
            \<longleftrightarrow> spec_token_valid P (config self) (clock P (ticks w))"
    by (rule token_assert_valid)
next
  show "requests (fst (snd (WechatRobot_get_access_token P self w))) = requests w
            \<longleftrightarrow> spec_token_valid P (config self) (clock P (ticks w))"
    by (simp add: get_access_token_requests [OF assms])
next
  show "requests (fst (snd (WechatRobot_get_access_token P self w))) =
           (if spec_token_valid P (config self) (clock P (ticks w)) then requests w
            else requests w @
              [\<lparr>url = ''https://qyapi.weixin.qq.com/cgi-bin/gettoken'',
                params = [(''corpid'', cid), (''corpsecret'', sec)],
                headers = [], payload = NoBody\<rparr>])"
    by (simp add: get_access_token_requests [OF assms] gettoken_request_fields)
qed

theorem get_access_token_skips_iff_valid_witness:
  "debug demo_platform
   \<and> config cached_robot ''corp_id'' = Some (PStr ''corp'')
   \<and> config cached_robot ''secret_id'' = Some (PStr ''secret'')
   \<and> spec_token_valid demo_platform (config cached_robot)
        (clock demo_platform (ticks demo_world))
   \<and> requests (fst (snd (WechatRobot_get_access_token demo_platform cached_robot
        demo_world))) = []
   \<and> \<not> spec_token_valid demo_platform (config fresh_robot)
        (clock demo_platform (ticks demo_world))
   \<and> requests (fst (snd (WechatRobot_get_access_token demo_platform fresh_robot
        demo_world))) =
        [\<lparr>url = ''https://qyapi.weixin.qq.com/cgi-bin/gettoken'',
          params = [(''corpid'', PStr ''corp''), (''corpsecret'', PStr ''secret'')],
          headers = [], payload = NoBody\<rparr>]
   \<and> debug rounding_platform
   \<and> elapsed rounding_platform (config early_robot)
        (clock rounding_platform (ticks demo_world)) = Some (Finite 7260)
   \<and> requests (fst (snd (WechatRobot_get_access_token rounding_platform early_robot
        demo_world))) =
        [\<lparr>url = ''https://qyapi.weixin.qq.com/cgi-bin/gettoken'',
          params = [(''corpid'', PStr ''corp''), (''corpsecret'', PStr ''secret'')],
          headers = [], payload = NoBody\<rparr>]"
proof -
  have d: "debug demo_platform" and dr: "debug rounding_platform" by simp_all
  have c1: "config cached_robot ''corp_id'' = Some (PStr ''corp'')"
    and c2: "config cached_robot ''secret_id'' = Some (PStr ''secret'')"
    and f1: "config fresh_robot ''corp_id'' = Some (PStr ''corp'')"
    and f2: "config fresh_robot ''secret_id'' = Some (PStr ''secret'')"
    and e1: "config early_robot ''corp_id'' = Some (PStr ''corp'')"
    and e2: "config early_robot ''secret_id'' = Some (PStr ''secret'')"
    by simp_all
  note v = cached_robot_valid
  note n = fresh_robot_invalid [of demo_platform "clock demo_platform (ticks demo_world)"]
  from get_access_token_skips_iff_valid [OF d c1 c2, of demo_world] v
  have a: "requests (fst (snd (WechatRobot_get_access_token demo_platform cached_robot
        demo_world))) = []"
    by simp
  from get_access_token_skips_iff_valid [OF d f1 f2, of demo_world] n
  have b: "requests (fst (snd (WechatRobot_get_access_token demo_platform fresh_robot
        demo_world))) =
        [\<lparr>url = ''https://qyapi.weixin.qq.com/cgi-bin/gettoken'',
          params = [(''corpid'', PStr ''corp''), (''corpsecret'', PStr ''secret'')],
          headers = [], payload = NoBody\<rparr>]"
    by simp
  from get_access_token_skips_iff_valid [OF dr e1 e2, of demo_world] early_robot_invalid
  have c: "requests (fst (snd (WechatRobot_get_access_token rounding_platform early_robot
        demo_world))) =
        [\<lparr>url = ''https://qyapi.weixin.qq.com/cgi-bin/gettoken'',
          params = [(''corpid'', PStr ''corp''), (''corpsecret'', PStr ''secret'')],
          headers = [], payload = NoBody\<rparr>]"
    by simp
  from d dr c1 c2 v a n b c early_robot_elapsed show ?thesis by blast
qed

text \<open>
  Claim C2. With assertions enabled, in the ABSENT/EXPIRED state a send call issues
  exactly one POST to the token endpoint
  \<^verbatim>\<open>https://qyapi.weixin.qq.com/cgi-bin/gettoken\<close>, and its parameters are \<^verbatim>\<open>corpid\<close>,
  the configured corp id, and \<^verbatim>\<open>corpsecret\<close>, the configured secret. When the provider
  answers with JSON that has an \<^verbatim>\<open>access_token\<close>, that value is stored in the
  \<^verbatim>\<open>token\<close> field, the string of the current clock reading in the \<^verbatim>\<open>token_time\<close>
  field, and the token returned is the stored one.
\<close>

theorem refresh_posts_once_and_stores:
  assumes "debug P"
    and "\<not> spec_token_valid P (config self) (clock P (ticks w))"
    and "config self ''corp_id'' = Some cid" and "config self ''secret_id'' = Some sec"
  shows "let token_post =
             \<lparr>url = ''https://qyapi.weixin.qq.com/cgi-bin/gettoken'',
              params = [(''corpid'', cid), (''corpsecret'', sec)],
              headers = [], payload = NoBody\<rparr>
         in filter (\<lambda>r. url r = ''https://qyapi.weixin.qq.com/cgi-bin/gettoken'')
                (requests (fst (snd (WechatRobot_send_msg P self m rcv w)))) =
              filter (\<lambda>r. url r = ''https://qyapi.weixin.qq.com/cgi-bin/gettoken'')
                (requests w) @ [token_post]
          \<and> requests (fst (snd (WechatRobot_get_access_token P self w))) =
              requests w @ [token_post]
          \<and> (server P (requests w) token_post = Json data
               \<and> getitem data ''access_token'' = Inr tok \<longrightarrow>
             WechatRobot_get_access_token P self w =
               (self\<lparr>config := (config self)(''token'' \<mapsto> tok,
                    ''token_time'' \<mapsto> PStr (str_of_float P (clock P (Suc (ticks w)))))\<rparr>,
                w\<lparr>ticks := Suc (Suc (ticks w)), requests := requests w @ [token_post]\<rparr>,
                Inr tok)
             \<and> config (fst (WechatRobot_send_msg P self m rcv w)) =
                 (config self)(''token'' \<mapsto> tok,
                    ''token_time'' \<mapsto> PStr (str_of_float P (clock P (Suc (ticks w))))))"
proof -
  let ?w = "w\<lparr>ticks := Suc (ticks w)\<rparr>"
  have r: "requests (fst (snd (WechatRobot_get_access_token P self w))) =
           requests w @ [gettoken_request cid sec]"
    using get_access_token_requests [OF assms(1,3,4), of w] assms(2) by simp
  have u: "url (gettoken_request cid sec) = gettoken_url"
    by (simp add: gettoken_request_def)
  have p: "filter (\<lambda>r. url r = gettoken_url)
             (requests (fst (snd (WechatRobot_send_msg P self m rcv w)))) =
           filter (\<lambda>r. url r = gettoken_url) (requests w) @ [gettoken_request cid sec]"
    by (simp add: send_msg_token_posts r u)
  have s: "WechatRobot_get_access_token P self w =
            (self\<lparr>config := (config self)(''token'' \<mapsto> tok,
                 ''token_time'' \<mapsto> PStr (str_of_float P (clock P (Suc (ticks w)))))\<rparr>,
             w\<lparr>ticks := Suc (Suc (ticks w)),
               requests := requests w @ [gettoken_request cid sec]\<rparr>,
             Inr tok)"
    if srv: "server P (requests w) (gettoken_request cid sec) = Json data"
      and tok: "getitem data ''access_token'' = Inr tok"
  proof -
    from srv have "server P (requests ?w) (gettoken_request cid sec) = Json data"
      by simp
    from refresh_token_ok [OF assms(3,4) this tok] show ?thesis
      by (simp add: get_access_token_invalid [OF assms(1,2)] dict_getitem_def)
  qed
  note eq = gettoken_request_fields [of cid sec]
  note r' = r [unfolded eq]
  note p' = p [unfolded eq gettoken_url_def]
  note s' = s [unfolded eq]
  from r' p' s' show ?thesis
    unfolding Let_def by (simp add: send_msg_config)
qed

theorem refresh_posts_once_and_stores_witness:
  "debug demo_platform
   \<and> \<not> spec_token_valid demo_platform (config fresh_robot)
        (clock demo_platform (ticks demo_world))
   \<and> config fresh_robot ''corp_id'' = Some (PStr ''corp'')
   \<and> config fresh_robot ''secret_id'' = Some (PStr ''secret'')
   \<and> requests (fst (snd (WechatRobot_get_access_token demo_platform fresh_robot
        demo_world))) =
        [\<lparr>url = ''https://qyapi.weixin.qq.com/cgi-bin/gettoken'',
          params = [(''corpid'', PStr ''corp''), (''corpsecret'', PStr ''secret'')],
          headers = [], payload = NoBody\<rparr>]
   \<and> filter (\<lambda>r. url r = ''https://qyapi.weixin.qq.com/cgi-bin/gettoken'')
        (requests (fst (snd (WechatRobot_send_msg demo_platform fresh_robot ''hi''
           (RStr ''ann'') demo_world)))) =
        [\<lparr>url = ''https://qyapi.weixin.qq.com/cgi-bin/gettoken'',
          params = [(''corpid'', PStr ''corp''), (''corpsecret'', PStr ''secret'')],
          headers = [], payload = NoBody\<rparr>]
   \<and> config (fst (WechatRobot_send_msg demo_platform fresh_robot ''hi''
           (RStr ''ann'') demo_world)) ''token'' = Some (PStr ''T1'')
   \<and> config (fst (WechatRobot_send_msg demo_platform fresh_robot ''hi''
           (RStr ''ann'') demo_world)) ''token_time'' = Some (PStr ''1001.0'')
   \<and> snd (snd (WechatRobot_get_access_token demo_platform fresh_robot demo_world)) =
        Inr (PStr ''T1'')"
proof -
  have d: "debug demo_platform" by simp
  have f1: "config fresh_robot ''corp_id'' = Some (PStr ''corp'')"
    and f2: "config fresh_robot ''secret_id'' = Some (PStr ''secret'')"
    by simp_all
  note n = fresh_robot_invalid [of demo_platform "clock demo_platform (ticks demo_world)"]
  have g: "getitem (PDict [(''errcode'', PInt 0), (''access_token'', PStr ''T1'')])
             ''access_token'' = Inr (PStr ''T1'')"
    by (simp add: dict_getitem_def)
  have srv: "demo_server []
       \<lparr>url = ''https://qyapi.weixin.qq.com/cgi-bin/gettoken'',
        params = [(''corpid'', PStr ''corp''), (''corpsecret'', PStr ''secret'')],
        headers = [], payload = NoBody\<rparr> =
      Json (PDict [(''errcode'', PInt 0), (''access_token'', PStr ''T1'')])"
    by (simp add: demo_server_def gettoken_url_def)
  from refresh_posts_once_and_stores [OF d n f1 f2, of "''hi''" "RStr ''ann''"
      "PDict [(''errcode'', PInt 0), (''access_token'', PStr ''T1'')]" "PStr ''T1''"] g srv
  show ?thesis
    using d n f1 f2 by (simp add: Let_def)
qed

text \<open>
  Claim C9. When the refresh fails (the transport raises, the body is not JSON, the
  JSON object has no \<^verbatim>\<open>access_token\<close>, or reading \<^verbatim>\<open>access_token\<close> from the parsed
  answer raises for any other reason) the exception leaves \<^verbatim>\<open>_get_access_token\<close>; the
  refresh is attempted when assertions are enabled and the token is not VALID. Whenever an
  exception leaves \<^verbatim>\<open>_get_access_token\<close>, in any mode, the configuration is the one
  before the call: neither \<^verbatim>\<open>token\<close> nor \<^verbatim>\<open>token_time\<close> has been assigned.
\<close>

theorem refresh_failure_keeps_config:
  "(debug P \<and> \<not> spec_token_valid P (config self) (clock P (ticks w))
      \<and> config self ''corp_id'' = Some cid \<and> config self ''secret_id'' = Some sec \<longrightarrow>
      (server P (requests w) (gettoken_request cid sec) = Transport_error \<longrightarrow>
         snd (snd (WechatRobot_get_access_token P self w)) = Inl RequestException)
    \<and> (server P (requests w) (gettoken_request cid sec) = Not_json \<longrightarrow>
         snd (snd (WechatRobot_get_access_token P self w)) = Inl JSONDecodeError)
    \<and> (server P (requests w) (gettoken_request cid sec) = Json (PDict kvs)
         \<and> map_of kvs ''access_token'' = None \<longrightarrow>
         snd (snd (WechatRobot_get_access_token P self w)) = Inl (KeyError ''access_token''))
    \<and> (server P (requests w) (gettoken_request cid sec) = Json data
         \<and> getitem data ''access_token'' = Inl e' \<longrightarrow>
         snd (snd (WechatRobot_get_access_token P self w)) = Inl e'))
   \<and> (\<forall>e. snd (snd (WechatRobot_get_access_token P self w)) = Inl e \<longrightarrow>
         fst (WechatRobot_get_access_token P self w) = self)"
proof -
  have x: "\<forall>e. snd (snd (WechatRobot_get_access_token P self w)) = Inl e \<longrightarrow>
            fst (WechatRobot_get_access_token P self w) = self"
    using get_access_token_error by blast
  have y: "(server P (requests w) (gettoken_request cid sec) = Transport_error \<longrightarrow>
         snd (snd (WechatRobot_get_access_token P self w)) = Inl RequestException)
    \<and> (server P (requests w) (gettoken_request cid sec) = Not_json \<longrightarrow>
         snd (snd (WechatRobot_get_access_token P self w)) = Inl JSONDecodeError)
    \<and> (server P (requests w) (gettoken_request cid sec) = Json (PDict kvs)
         \<and> map_of kvs ''access_token'' = None \<longrightarrow>
         snd (snd (WechatRobot_get_access_token P self w)) = Inl (KeyError ''access_token''))
    \<and> (server P (requests w) (gettoken_request cid sec) = Json data
         \<and> getitem data ''access_token'' = Inl e' \<longrightarrow>
         snd (snd (WechatRobot_get_access_token P self w)) = Inl e')"
    if d: "debug P" and n: "\<not> spec_token_valid P (config self) (clock P (ticks w))"
      and c: "config self ''corp_id'' = Some cid" and s: "config self ''secret_id'' = Some sec"
    using c s
    by (simp add: get_access_token_invalid [OF d n] refresh_token_def dict_getitem_def
          requests_post_def)
  from x y show ?thesis by blast
qed

theorem refresh_failure_keeps_config_witness:
  "debug offline_platform
   \<and> \<not> spec_token_valid offline_platform (config fresh_robot)
        (clock offline_platform (ticks demo_world))
   \<and> config fresh_robot ''corp_id'' = Some (PStr ''corp'')
   \<and> config fresh_robot ''secret_id'' = Some (PStr ''secret'')
   \<and> server offline_platform (requests demo_world)
        (gettoken_request (PStr ''corp'') (PStr ''secret'')) = Transport_error
   \<and> snd (snd (WechatRobot_get_access_token offline_platform fresh_robot demo_world)) =
        Inl RequestException
   \<and> fst (WechatRobot_get_access_token offline_platform fresh_robot demo_world) = fresh_robot"
proof -
  have d: "debug offline_platform" by simp
  have f1: "config fresh_robot ''corp_id'' = Some (PStr ''corp'')"
    and f2: "config fresh_robot ''secret_id'' = Some (PStr ''secret'')"
    by simp_all
  note n = fresh_robot_invalid [of offline_platform "clock offline_platform (ticks demo_world)"]
  have s: "server offline_platform (requests demo_world)
        (gettoken_request (PStr ''corp'') (PStr ''secret'')) = Transport_error"
    by simp
  from refresh_failure_keeps_config [of offline_platform fresh_robot demo_world
      "PStr ''corp''" "PStr ''secret''"] d n f1 f2 s
  have "snd (snd (WechatRobot_get_access_token offline_platform fresh_robot demo_world)) =
        Inl RequestException
     \<and> fst (WechatRobot_get_access_token offline_platform fresh_robot demo_world) = fresh_robot"
    by blast
  with d n f1 f2 s show ?thesis by blast
qed

text \<open>
  Under \<^verbatim>\<open>python -O\<close> the assertion is compiled away: the same client with no cached
  token issues no POST at all and \<^verbatim>\<open>return self._config["token"]\<close> raises.
\<close>

lemma send_msg_without_assertions:
  "WechatRobot_send_msg optimized_platform fresh_robot ''hi'' (RStr ''ann'') demo_world =
     (fresh_robot, demo_world, Inl (KeyError ''token''))"
  by (simp add: WechatRobot_send_msg_def get_access_token_optimized dict_getitem_def)

section \<open>Responses and application-level failures\<close>

text \<open>
  Claim C3. When the answer to the POST parses to a JSON object with an integer
  \<^verbatim>\<open>errcode\<close>, \<^verbatim>\<open>send\<close> returns that object unchanged, whatever the value of
  \<^verbatim>\<open>errcode\<close>, and raises nothing; it writes one critical log entry if \<^verbatim>\<open>errcode\<close> is
  not zero and none if it is zero.
\<close>

theorem send_returns_response:
  assumes "server P (requests w) r = Json (PDict kvs)"
    and "map_of kvs ''errcode'' = Some (PInt c)"
  shows "snd (send P r w) = Inr (PDict kvs)
       \<and> logs (fst (send P r w)) = (if c \<noteq> 0 then logs w @ [(r, PDict kvs)] else logs w)
       \<and> (logs (fst (send P r w)) \<noteq> logs w \<longleftrightarrow> c \<noteq> 0)"
  using assms by (simp add: send_def requests_post_def dict_getitem_def)

theorem send_returns_response_witness:
  "server demo_platform (requests demo_world) (webhook_request ''bad'') =
     Json (PDict [(''errcode'', PInt 93000), (''errmsg'', PStr ''invalid webhook url'')])
   \<and> map_of [(''errcode'', PInt 93000), (''errmsg'', PStr ''invalid webhook url'')]
        ''errcode'' = Some (PInt 93000)
   \<and> snd (send demo_platform (webhook_request ''bad'') demo_world) =
        Inr (PDict [(''errcode'', PInt 93000), (''errmsg'', PStr ''invalid webhook url'')])
   \<and> logs (fst (send demo_platform (webhook_request ''bad'') demo_world)) =
        [(webhook_request ''bad'',
          PDict [(''errcode'', PInt 93000), (''errmsg'', PStr ''invalid webhook url'')])]"
proof -
  have s: "server demo_platform (requests demo_world) (webhook_request ''bad'') =
     Json (PDict [(''errcode'', PInt 93000), (''errmsg'', PStr ''invalid webhook url'')])"
    by (simp add: demo_server_bad)
  have m: "map_of [(''errcode'', PInt 93000), (''errmsg'', PStr ''invalid webhook url'')]
        ''errcode'' = Some (PInt 93000)"
    by simp
  from send_returns_response [OF s m] s m show ?thesis by simp
qed

text \<open>
  Claim C8 (as amended). When the answer parses to a JSON object without an
  \<^verbatim>\<open>errcode\<close> field, \<^verbatim>\<open>send\<close> raises \<^verbatim>\<open>KeyError\<close> for that key and writes no log
  entry. When the answer parses to JSON that is not an object (an array, a string, a
  number, a boolean or \<^verbatim>\<open>null\<close>), \<^verbatim>\<open>send\<close> raises \<^verbatim>\<open>TypeError\<close> and writes no log
  entry. Whenever \<^verbatim>\<open>send\<close> returns a response, that response is the provider's answer
  and it is an object that has an \<^verbatim>\<open>errcode\<close> field.
\<close>

theorem send_missing_errcode:
  "(server P (requests w) r = Json (PDict kvs) \<and> map_of kvs ''errcode'' = None
      \<longrightarrow> snd (send P r w) = Inl (KeyError ''errcode'') \<and> logs (fst (send P r w)) = logs w)
   \<and> (server P (requests w) r = Json res' \<and> (\<forall>kvs'. res' \<noteq> PDict kvs')
      \<longrightarrow> snd (send P r w) = Inl TypeError \<and> logs (fst (send P r w)) = logs w)
   \<and> (snd (send P r w) = Inr res
      \<longrightarrow> (\<exists>kvs' c. res = PDict kvs' \<and> server P (requests w) r = Json res
             \<and> map_of kvs' ''errcode'' = Some c))"
proof (intro conjI)
  show "server P (requests w) r = Json (PDict kvs) \<and> map_of kvs ''errcode'' = None
      \<longrightarrow> snd (send P r w) = Inl (KeyError ''errcode'') \<and> logs (fst (send P r w)) = logs w"
    by (simp add: send_def requests_post_def dict_getitem_def)
next
  show "server P (requests w) r = Json res' \<and> (\<forall>kvs'. res' \<noteq> PDict kvs')
      \<longrightarrow> snd (send P r w) = Inl TypeError \<and> logs (fst (send P r w)) = logs w"
    by (cases res') (simp_all add: send_def requests_post_def)
next
  show "snd (send P r w) = Inr res
      \<longrightarrow> (\<exists>kvs' c. res = PDict kvs' \<and> server P (requests w) r = Json res
             \<and> map_of kvs' ''errcode'' = Some c)"
    by (auto simp add: send_def requests_post_def dict_getitem_def
          split: http_outcome.splits sum.splits if_splits option.splits
          elim!: getitem.elims)
qed

theorem send_missing_errcode_witness:
  "server demo_platform (requests demo_world) (webhook_request ''odd'') =
     Json (PDict [(''errmsg'', PStr ''ok'')])
   \<and> map_of [(''errmsg'', PStr ''ok'')] ''errcode'' = None
   \<and> snd (send demo_platform (webhook_request ''odd'') demo_world) =
        Inl (KeyError ''errcode'')
   \<and> logs (fst (send demo_platform (webhook_request ''odd'') demo_world)) = []
   \<and> server demo_platform (requests demo_world) (webhook_request ''list'') = Json (PList [])
   \<and> snd (send demo_platform (webhook_request ''list'') demo_world) = Inl TypeError"
proof -
  have s: "server demo_platform (requests demo_world) (webhook_request ''odd'') =
     Json (PDict [(''errmsg'', PStr ''ok'')])"
    by (simp add: demo_server_odd)
  have m: "map_of [(''errmsg'', PStr ''ok'')] ''errcode'' = (None :: pyval option)"
    by simp
  have l: "server demo_platform (requests demo_world) (webhook_request ''list'') =
     Json (PList [])"
    by (simp add: demo_server_list)
  from send_missing_errcode [of demo_platform demo_world "webhook_request ''odd''"
      "[(''errmsg'', PStr ''ok'')]"] s m
  have a: "snd (send demo_platform (webhook_request ''odd'') demo_world) =
        Inl (KeyError ''errcode'')
     \<and> logs (fst (send demo_platform (webhook_request ''odd'') demo_world)) = []"
    by simp
  from send_missing_errcode [of demo_platform demo_world "webhook_request ''list''"
      _ "PList []"] l
  have b: "snd (send demo_platform (webhook_request ''list'') demo_world) = Inl TypeError"
    by simp
  from s m l a b show ?thesis by blast
qed

text \<open>
  The claim as first worded, that every parsed answer lacking \<^verbatim>\<open>errcode\<close> makes
  \<^verbatim>\<open>send\<close> raise \<^verbatim>\<open>KeyError\<close>, fails on the JSON array \<^verbatim>\<open>[]\<close>: it has no
  \<^verbatim>\<open>errcode\<close>, and \<^verbatim>\<open>res["errcode"]\<close> on a list raises \<^verbatim>\<open>TypeError\<close>.
\<close>

theorem send_missing_errcode_counterexample:
  "server demo_platform (requests demo_world) (webhook_request ''list'') = Json (PList [])
   \<and> getitem (PList []) ''errcode'' = Inl TypeError
   \<and> snd (send demo_platform (webhook_request ''list'') demo_world) = Inl TypeError
   \<and> snd (send demo_platform (webhook_request ''list'') demo_world)
        \<noteq> Inl (KeyError ''errcode'')"
  by (simp add: send_def requests_post_def demo_server_list)

section \<open>The posted bodies\<close>

text \<open>
  Claim C4. When the token obtained is a string and the configuration holds an agent id,
  \<^verbatim>\<open>send_msg\<close> of \<^verbatim>\<open>WechatRobot\<close> issues one further POST whose URL ends in the token and
  whose JSON body has \<^verbatim>\<open>touser\<close> equal to the normalized receiver (a string unchanged,
  the elements of an iterable joined with \<^verbatim>\<open>|\<close>), \<^verbatim>\<open>msgtype\<close> \<^verbatim>\<open>text\<close>, \<^verbatim>\<open>agentid\<close>
  the configured agent id, \<^verbatim>\<open>text.content\<close> the message, and \<^verbatim>\<open>safe\<close> \<^verbatim>\<open>0\<close>.
\<close>

theorem wechat_robot_send_msg_body:
  assumes "WechatRobot_get_access_token P self w = (self1, w1, Inr (PStr tok))"
    and "config self ''agent_id'' = Some aid"
  shows "\<exists>r b t. requests (fst (snd (WechatRobot_send_msg P self m rcv w))) = requests w1 @ [r]
     \<and> url r = message_send_url @ tok
     \<and> payload r = DataBody b
     \<and> getitem b ''touser'' =
         Inr (PStr (case rcv of
                      RStr s \<Rightarrow> s
                    | RIter [] \<Rightarrow> []
                    | RIter (x # xs) \<Rightarrow> x @ concat (map (\<lambda>y. ''|'' @ y) xs)))
     \<and> getitem b ''msgtype'' = Inr (PStr ''text'')
     \<and> getitem b ''agentid'' = Inr aid
     \<and> getitem b ''text'' = Inr t \<and> getitem t ''content'' = Inr (PStr m)
     \<and> getitem b ''safe'' = Inr (PStr ''0'')"
proof -
  have "config self1 ''agent_id'' = Some aid"
    using get_access_token_frame [of "''agent_id''" P self w] assms by simp
  then show ?thesis
    using assms(1) normalize_receiver_eq [of rcv]
    by (simp add: WechatRobot_send_msg_def send_requests dict_getitem_def send_values_def)
qed

theorem wechat_robot_send_msg_body_witness:
  "config fresh_robot ''agent_id'' = Some (PInt 7)
   \<and> snd (snd (WechatRobot_get_access_token demo_platform fresh_robot demo_world)) =
       Inr (PStr ''T1'')
   \<and> (\<exists>r b t. requests (fst (snd (WechatRobot_send_msg demo_platform fresh_robot ''hi''
                   (RIter [''a'', ''b'']) demo_world))) =
               [gettoken_request (PStr ''corp'') (PStr ''secret''), r]
        \<and> url r = message_send_url @ ''T1''
        \<and> payload r = DataBody b
        \<and> getitem b ''touser'' = Inr (PStr ''a|b'')
        \<and> getitem b ''msgtype'' = Inr (PStr ''text'')
        \<and> getitem b ''agentid'' = Inr (PInt 7)
        \<and> getitem b ''text'' = Inr t \<and> getitem t ''content'' = Inr (PStr ''hi'')
        \<and> getitem b ''safe'' = Inr (PStr ''0''))"
proof -
  have a: "config fresh_robot ''agent_id'' = Some (PInt 7)" by simp
  from wechat_robot_send_msg_body [OF fresh_robot_refresh a, of "''hi''" "RIter [''a'', ''b'']"]
  have "\<exists>r b t. requests (fst (snd (WechatRobot_send_msg demo_platform fresh_robot ''hi''
                   (RIter [''a'', ''b'']) demo_world))) =
               [gettoken_request (PStr ''corp'') (PStr ''secret''), r]
        \<and> url r = message_send_url @ ''T1''
        \<and> payload r = DataBody b
        \<and> getitem b ''touser'' = Inr (PStr ''a|b'')
        \<and> getitem b ''msgtype'' = Inr (PStr ''text'')
        \<and> getitem b ''agentid'' = Inr (PInt 7)
        \<and> getitem b ''text'' = Inr t \<and> getitem t ''content'' = Inr (PStr ''hi'')
        \<and> getitem b ''safe'' = Inr (PStr ''0'')"
    by simp
  with a fresh_robot_refresh show ?thesis by simp
qed

text \<open>
  Claim C5. The body that \<^verbatim>\<open>send_msg\<close> of \<^verbatim>\<open>WechatGroupRobot\<close> posts to the webhook URL
  of its key has \<^verbatim>\<open>msgtype\<close> \<^verbatim>\<open>text\<close>, \<^verbatim>\<open>text.content\<close> the message,
  \<^verbatim>\<open>text.mentioned_list\<close> the first mention list and \<^verbatim>\<open>text.mentioned_mobile_list\<close> the
  second.
\<close>

theorem group_send_msg_body:
  "\<exists>r b t. requests (fst (snd (WechatGroupRobot_send_msg P self m L M w))) = requests w @ [r]
     \<and> url r = webhook_url @ key self
     \<and> payload r = JsonBody b
     \<and> getitem b ''msgtype'' = Inr (PStr ''text'')
     \<and> getitem b ''text'' = Inr t
     \<and> getitem t ''content'' = Inr (PStr m)
     \<and> getitem t ''mentioned_list'' = Inr (PList (map PStr L))
     \<and> getitem t ''mentioned_mobile_list'' = Inr (PList (map PStr M))"
  by (simp add: WechatGroupRobot_send_msg_def send_requests dict_getitem_def)

theorem group_send_msg_body_witness:
  "\<exists>r b t. requests (fst (snd (WechatGroupRobot_send_msg demo_platform \<lparr>key = ''K''\<rparr>
                ''hello'' [''ann''] [''13900000000''] demo_world))) = [r]
     \<and> url r = webhook_url @ ''K''
     \<and> payload r = JsonBody b
     \<and> getitem b ''msgtype'' = Inr (PStr ''text'')
     \<and> getitem b ''text'' = Inr t
     \<and> getitem t ''content'' = Inr (PStr ''hello'')
     \<and> getitem t ''mentioned_list'' = Inr (PList [PStr ''ann''])
     \<and> getitem t ''mentioned_mobile_list'' = Inr (PList [PStr ''13900000000''])"
  using group_send_msg_body [of demo_platform "\<lparr>key = ''K''\<rparr>" "''hello''" "[''ann'']"
      "[''13900000000'']" demo_world]
  by simp

text \<open>
  Claim C6. The body that \<^verbatim>\<open>send_md\<close> of \<^verbatim>\<open>WechatGroupRobot\<close> posts has \<^verbatim>\<open>msgtype\<close>
  \<^verbatim>\<open>markdown\<close> and \<^verbatim>\<open>markdown.content\<close> the message.
\<close>

theorem group_send_md_body:
  "\<exists>r b t. requests (fst (snd (WechatGroupRobot_send_md P self m L M w))) = requests w @ [r]
     \<and> url r = webhook_url @ key self
     \<and> payload r = JsonBody b
     \<and> getitem b ''msgtype'' = Inr (PStr ''markdown'')
     \<and> getitem b ''markdown'' = Inr t
     \<and> getitem t ''content'' = Inr (PStr m)"
  by (simp add: WechatGroupRobot_send_md_def send_requests dict_getitem_def)

theorem group_send_md_body_witness:
  "\<exists>r b t. requests (fst (snd (WechatGroupRobot_send_md demo_platform \<lparr>key = ''K''\<rparr>
                ''# title'' [] [] demo_world))) = [r]
     \<and> url r = webhook_url @ ''K''
     \<and> payload r = JsonBody b
     \<and> getitem b ''msgtype'' = Inr (PStr ''markdown'')
     \<and> getitem b ''markdown'' = Inr t
     \<and> getitem t ''content'' = Inr (PStr ''# title'')"
  using group_send_md_body [of demo_platform "\<lparr>key = ''K''\<rparr>" "''# title''" "[]" "[]"
      demo_world]
  by simp

section \<open>Construction and the frame of the operations\<close>

text \<open>
  Claim C7. Constructing a \<^verbatim>\<open>WechatRobot\<close> from a configuration that holds
  \<^verbatim>\<open>corp_id\<close>, \<^verbatim>\<open>secret_id\<close> and \<^verbatim>\<open>agent_id\<close> raises nothing and keeps the
  configuration; when one of them is missing it raises \<^verbatim>\<open>ValueError\<close>, and the message
  is the fixed text with the name of the first missing field inserted.
\<close>

theorem init_checks_required_fields:
  "(cfg ''corp_id'' \<noteq> None \<and> cfg ''secret_id'' \<noteq> None \<and> cfg ''agent_id'' \<noteq> None
      \<longrightarrow> WechatRobot_init cfg = Inr \<lparr>config = cfg\<rparr>)
   \<and> (cfg ''corp_id'' = None
      \<longrightarrow> WechatRobot_init cfg = Inl (ValueError (msg_prefix @ ''corp_id'' @ msg_suffix)))
   \<and> (cfg ''corp_id'' \<noteq> None \<and> cfg ''secret_id'' = None
      \<longrightarrow> WechatRobot_init cfg = Inl (ValueError (msg_prefix @ ''secret_id'' @ msg_suffix)))
   \<and> (cfg ''corp_id'' \<noteq> None \<and> cfg ''secret_id'' \<noteq> None \<and> cfg ''agent_id'' = None
      \<longrightarrow> WechatRobot_init cfg = Inl (ValueError (msg_prefix @ ''agent_id'' @ msg_suffix)))"
  by (auto simp: WechatRobot_init_def required_keys_def missing_msg_def)

theorem init_checks_required_fields_witness:
  "demo_config ''corp_id'' \<noteq> None \<and> demo_config ''secret_id'' \<noteq> None
   \<and> demo_config ''agent_id'' \<noteq> None
   \<and> WechatRobot_init demo_config = Inr fresh_robot
   \<and> (demo_config(''secret_id'' := None)) ''corp_id'' \<noteq> None
   \<and> (demo_config(''secret_id'' := None)) ''secret_id'' = None
   \<and> WechatRobot_init (demo_config(''secret_id'' := None)) =
        Inl (ValueError (msg_prefix @ ''secret_id'' @ msg_suffix))"
proof -
  have a: "demo_config ''corp_id'' \<noteq> None \<and> demo_config ''secret_id'' \<noteq> None
      \<and> demo_config ''agent_id'' \<noteq> None"
    by (simp add: demo_config_def)
  have b: "(demo_config(''secret_id'' := None)) ''corp_id'' \<noteq> None
      \<and> (demo_config(''secret_id'' := None)) ''secret_id'' = None"
    by (simp add: demo_config_def)
  from init_checks_required_fields [of demo_config] a
  have c: "WechatRobot_init demo_config = Inr fresh_robot"
    by (simp add: fresh_robot_def)
  from init_checks_required_fields [of "demo_config(''secret_id'' := None)"] b
  have d: "WechatRobot_init (demo_config(''secret_id'' := None)) =
        Inl (ValueError (msg_prefix @ ''secret_id'' @ msg_suffix))"
    by blast
  from a b c d show ?thesis by blast
qed

text \<open>
  Claim C10. The constructor keeps the configuration it is given; \<^verbatim>\<open>_get_access_token\<close>
  and \<^verbatim>\<open>send_msg\<close> of \<^verbatim>\<open>WechatRobot\<close> leave every key other than \<^verbatim>\<open>token\<close> and
  \<^verbatim>\<open>token_time\<close> as it was, in particular \<^verbatim>\<open>corp_id\<close>, \<^verbatim>\<open>secret_id\<close> and
  \<^verbatim>\<open>agent_id\<close>; the two methods of \<^verbatim>\<open>WechatGroupRobot\<close> leave the stored key as it was.
\<close>

theorem config_frame:
  "(WechatRobot_init cfg = Inr self0 \<longrightarrow> config self0 = cfg)
   \<and> (k \<noteq> ''token'' \<and> k \<noteq> ''token_time'' \<longrightarrow>
        config (fst (WechatRobot_get_access_token P self w)) k = config self k
      \<and> config (fst (WechatRobot_send_msg P self m rcv w)) k = config self k)
   \<and> (\<forall>k \<in> {''corp_id'', ''secret_id'', ''agent_id''}.
        config (fst (WechatRobot_get_access_token P self w)) k = config self k
      \<and> config (fst (WechatRobot_send_msg P self m rcv w)) k = config self k)
   \<and> key (fst (WechatGroupRobot_send_msg P g m L M w)) = key g
   \<and> key (fst (WechatGroupRobot_send_md P g m L M w)) = key g"
proof -
  have a: "WechatRobot_init cfg = Inr self0 \<longrightarrow> config self0 = cfg"
    by (auto simp: WechatRobot_init_def split: sum.splits)
  have b: "config (fst (WechatRobot_get_access_token P self w)) k' = config self k'
      \<and> config (fst (WechatRobot_send_msg P self m rcv w)) k' = config self k'"
    if "k' \<noteq> ''token''" and "k' \<noteq> ''token_time''" for k'
    using get_access_token_frame [OF that, of P self w] by (simp add: send_msg_config)
  have c: "key (fst (WechatGroupRobot_send_msg P g m L M w)) = key g"
    by (simp add: WechatGroupRobot_send_msg_def)
  have d: "key (fst (WechatGroupRobot_send_md P g m L M w)) = key g"
    by (simp add: WechatGroupRobot_send_md_def)
  have e: "\<forall>k \<in> {''corp_id'', ''secret_id'', ''agent_id''}.
        config (fst (WechatRobot_get_access_token P self w)) k = config self k
      \<and> config (fst (WechatRobot_send_msg P self m rcv w)) k = config self k"
    using b by simp
  from a b [of k] c d e show ?thesis by blast
qed

theorem config_frame_witness:
  "WechatRobot_init demo_config = Inr fresh_robot
   \<and> config fresh_robot = demo_config
   \<and> config (fst (WechatRobot_send_msg demo_platform fresh_robot ''hi'' (RStr ''ann'')
        demo_world)) ''corp_id'' = Some (PStr ''corp'')
   \<and> config (fst (WechatRobot_send_msg demo_platform fresh_robot ''hi'' (RStr ''ann'')
        demo_world)) ''secret_id'' = Some (PStr ''secret'')
   \<and> config (fst (WechatRobot_send_msg demo_platform fresh_robot ''hi'' (RStr ''ann'')
        demo_world)) ''agent_id'' = Some (PInt 7)
   \<and> key (fst (WechatGroupRobot_send_msg demo_platform \<lparr>key = ''K''\<rparr> ''hi'' [] []
        demo_world)) = ''K''"
proof -
  have i: "WechatRobot_init demo_config = Inr fresh_robot"
    by (simp add: WechatRobot_init_def required_keys_def demo_config_def fresh_robot_def)
  from config_frame [of demo_config fresh_robot "''corp_id''" demo_platform fresh_robot
      demo_world "''hi''" "RStr ''ann''" "\<lparr>key = ''K''\<rparr>" "[]" "[]"] i
  show ?thesis by simp
qed

end
